theory Spec2Isabelle
  imports Main "HOL-Library.Word"
begin

unbundle bit_operations_syntax

section \<open>Exceptions\<close>

text \<open>
  The exception classes raised by the modelled functions. A raise is the left injection
  of a sum type. \<open>is_ValueError\<close> is the test of an \<^verbatim>\<open>except ValueError\<close> clause:
  of the classes below only \<open>ValueError\<close> itself is a \<open>ValueError\<close>
  (\<open>Bip44DepthError\<close> and \<open>Bip32KeyError\<close> derive from \<open>Exception\<close>,
  \<open>OverflowError\<close> from \<open>ArithmeticError\<close>, \<open>IndexError\<close> from \<open>LookupError\<close>).
\<close>

datatype error =
    Bip44DepthError
  | Bip32KeyError
  | TypeError
  | ValueError
  | OverflowError
  | IndexError
  | OSError

fun is_ValueError :: "error \<Rightarrow> bool" where
  "is_ValueError ValueError = True"
| "is_ValueError _ = False"

section \<open>bip44\_base.py: enumeratives\<close>

datatype Bip44Changes = CHAIN_EXT | CHAIN_INT

fun int_of_change :: "Bip44Changes \<Rightarrow> int" where
  "int_of_change CHAIN_EXT = 0"
| "int_of_change CHAIN_INT = 1"

datatype Bip44Levels = MASTER | PURPOSE | COIN | ACCOUNT | CHANGE | ADDRESS_INDEX

fun int_of_level :: "Bip44Levels \<Rightarrow> int" where
  "int_of_level MASTER = 0"
| "int_of_level PURPOSE = 1"
| "int_of_level COIN = 2"
| "int_of_level ACCOUNT = 3"
| "int_of_level CHANGE = 4"
| "int_of_level ADDRESS_INDEX = 5"

section \<open>The collaborators of Bip44Base\<close>

text \<open>
  \<open>Bip32Base\<close> and \<open>BipCoinConf\<close> are imported by bip44\_base.py; the record fields are
  the accessors that \<open>Bip44Base\<close> calls on them. The key material of a Bip32 object (key,
  chain code, fingerprint, child index, net versions) is the type parameter \<open>'k\<close>.
  The default path of a coin configuration is kept as the list of child indexes that its
  path string denotes.
\<close>

record 'k Bip32Base =
  Depth :: int
  IsPublicOnly :: bool
  IsPrivateUnhardenedDerivationSupported :: bool
  KeyData :: 'k

record BipCoinConf =
  CoinIndex :: int
  DefaultPath :: "int list"

record 'k Bip44Base =
  m_bip32 :: "'k Bip32Base"
  m_coin_conf :: BipCoinConf

section \<open>Bip44Base: construction\<close>

definition Bip44Base_init :: "'k Bip32Base \<Rightarrow> BipCoinConf \<Rightarrow> error + 'k Bip44Base" where
  "Bip44Base_init bip32_obj coin_conf =
     (let depth = Depth bip32_obj in
      if IsPublicOnly bip32_obj then
        (if depth < int_of_level ACCOUNT \<or> depth > int_of_level ADDRESS_INDEX
         then Inl Bip44DepthError
         else Inr \<lparr>m_bip32 = bip32_obj, m_coin_conf = coin_conf\<rparr>)
      else
        (if depth < 0 \<or> depth > int_of_level ADDRESS_INDEX
         then Inl Bip44DepthError
         else Inr \<lparr>m_bip32 = bip32_obj, m_coin_conf = coin_conf\<rparr>))"

section \<open>Arguments checked with isinstance\<close>

text \<open>
  \<open>IsLevel\<close> and \<open>_ChangeGeneric\<close> test the class of their argument at run time, so the
  argument is a Python value that may or may not be an enumerative of the expected class.
  \<open>Bip44Levels\<close> and \<open>Bip44Changes\<close> are distinct \<open>IntEnum\<close> classes: a member of one, a
  plain integer, a string or \<open>None\<close> is not an instance of the other.
\<close>

datatype py_value =
    LevelsVal Bip44Levels
  | ChangesVal Bip44Changes
  | IntVal int
  | StrVal string
  | NoneVal

definition IsLevel :: "'k Bip44Base \<Rightarrow> py_value \<Rightarrow> error + bool" where
  "IsLevel self level =
     (case level of
        LevelsVal l \<Rightarrow> Inr (Depth (m_bip32 self) = int_of_level l)
      | _ \<Rightarrow> Inl TypeError)"

section \<open>Bip32: child keys\<close>

text \<open>
  Modelled from the spec: \<open>Bip32Utils.HardenIndex\<close> and the hardened test of a child
  index, which bip44\_base.py imports from \<open>bip_utils.bip.bip32\<close> (not among the sources).
  The specification: a child index is 32-bit and its top bit is the hardened flag.
\<close>

definition HardenIndex :: "int \<Rightarrow> int" where
  "HardenIndex index = index OR 2 ^ 31"

definition IsHardenedIndex :: "int \<Rightarrow> bool" where
  "IsHardenedIndex index = bit index 31"

text \<open>
  Modelled from the spec: \<open>Bip32Base.ChildKey\<close> (\<open>bip_utils.bip.bip32\<close>, not among the
  sources). The specification, section 4.2: one child is computed from one parent and one
  child index; the new depth is the parent depth plus one; the computation fails with a
  derivation error, which the docstrings of bip44\_base.py name \<open>Bip32KeyError\<close>. The
  computation of the key material (HMAC-SHA512 and the curve arithmetic, with every reason
  they have to refuse a parent and an index) is the parameter \<open>ckd\<close>. The child keeps
  the class of its parent, hence the public-only flag and the capability flag of the curve.
\<close>

definition ChildKey ::
  "('k Bip32Base \<Rightarrow> int \<Rightarrow> error + 'k) \<Rightarrow> 'k Bip32Base \<Rightarrow> int \<Rightarrow> error + 'k Bip32Base" where
  "ChildKey ckd parent index =
     (case ckd parent index of
        Inl e \<Rightarrow> Inl e
      | Inr k \<Rightarrow> Inr (parent\<lparr>Depth := Depth parent + 1, KeyData := k\<rparr>))"

text \<open>
  Modelled from the spec: \<open>Bip32Base.DerivePath\<close> (not among the sources). The
  specification, sections 1 and 4.4: the engine walks a path of child indexes, one
  derivation per index, left to right, and the first failure ends the walk.
\<close>

fun DerivePath ::
  "('k Bip32Base \<Rightarrow> int \<Rightarrow> error + 'k) \<Rightarrow> 'k Bip32Base \<Rightarrow> int list \<Rightarrow> error + 'k Bip32Base" where
  "DerivePath ckd bip32_obj [] = Inr bip32_obj"
| "DerivePath ckd bip32_obj (index # path) =
     (case ChildKey ckd bip32_obj index of
        Inl e \<Rightarrow> Inl e
      | Inr child \<Rightarrow> DerivePath ckd child path)"

text \<open>
  A derivation that never refuses and whose key material is the list of the child indexes
  it was asked for, in order: it shows which indexes an operation hands to \<open>ChildKey\<close>.
\<close>

definition path_ckd :: "int list Bip32Base \<Rightarrow> int \<Rightarrow> error + int list" where
  "path_ckd parent index = Inr (KeyData parent @ [index])"

section \<open>Bip44Base: the derivation steps\<close>

definition PurposeGeneric ::
  "('k Bip32Base \<Rightarrow> int \<Rightarrow> error + 'k) \<Rightarrow> 'k Bip44Base \<Rightarrow> int \<Rightarrow> error + 'k Bip44Base" where
  "PurposeGeneric ckd bip_obj purpose =
     (case IsLevel bip_obj (LevelsVal MASTER) of
        Inl e \<Rightarrow> Inl e
      | Inr at_level \<Rightarrow>
          if \<not> at_level then Inl Bip44DepthError
          else (case ChildKey ckd (m_bip32 bip_obj) purpose of
                  Inl e \<Rightarrow> Inl e
                | Inr child \<Rightarrow> Bip44Base_init child (m_coin_conf bip_obj)))"

definition CoinGeneric ::
  "('k Bip32Base \<Rightarrow> int \<Rightarrow> error + 'k) \<Rightarrow> 'k Bip44Base \<Rightarrow> error + 'k Bip44Base" where
  "CoinGeneric ckd bip_obj =
     (case IsLevel bip_obj (LevelsVal PURPOSE) of
        Inl e \<Rightarrow> Inl e
      | Inr at_level \<Rightarrow>
          if \<not> at_level then Inl Bip44DepthError
          else (let coin_idx = CoinIndex (m_coin_conf bip_obj) in
                case ChildKey ckd (m_bip32 bip_obj) (HardenIndex coin_idx) of
                  Inl e \<Rightarrow> Inl e
                | Inr child \<Rightarrow> Bip44Base_init child (m_coin_conf bip_obj)))"

definition AccountGeneric ::
  "('k Bip32Base \<Rightarrow> int \<Rightarrow> error + 'k) \<Rightarrow> 'k Bip44Base \<Rightarrow> int \<Rightarrow> error + 'k Bip44Base" where
  "AccountGeneric ckd bip_obj acc_idx =
     (case IsLevel bip_obj (LevelsVal COIN) of
        Inl e \<Rightarrow> Inl e
      | Inr at_level \<Rightarrow>
          if \<not> at_level then Inl Bip44DepthError
          else (case ChildKey ckd (m_bip32 bip_obj) (HardenIndex acc_idx) of
                  Inl e \<Rightarrow> Inl e
                | Inr child \<Rightarrow> Bip44Base_init child (m_coin_conf bip_obj)))"

text \<open>The child index that \<open>_ChangeGeneric\<close> computes for a change type.\<close>

definition change_idx :: "'k Bip44Base \<Rightarrow> Bip44Changes \<Rightarrow> int" where
  "change_idx bip_obj change_type =
     (if \<not> IsPrivateUnhardenedDerivationSupported (m_bip32 bip_obj)
      then HardenIndex (int_of_change change_type)
      else int_of_change change_type)"

definition ChangeGeneric ::
  "('k Bip32Base \<Rightarrow> int \<Rightarrow> error + 'k) \<Rightarrow> 'k Bip44Base \<Rightarrow> py_value \<Rightarrow> error + 'k Bip44Base" where
  "ChangeGeneric ckd bip_obj change_type =
     (case change_type of
        ChangesVal ct \<Rightarrow>
          (case IsLevel bip_obj (LevelsVal ACCOUNT) of
             Inl e \<Rightarrow> Inl e
           | Inr at_level \<Rightarrow>
               if \<not> at_level then Inl Bip44DepthError
               else (case ChildKey ckd (m_bip32 bip_obj) (change_idx bip_obj ct) of
                       Inl e \<Rightarrow> Inl e
                     | Inr child \<Rightarrow> Bip44Base_init child (m_coin_conf bip_obj)))
      | _ \<Rightarrow> Inl TypeError)"

definition AddressIndexGeneric ::
  "('k Bip32Base \<Rightarrow> int \<Rightarrow> error + 'k) \<Rightarrow> 'k Bip44Base \<Rightarrow> int \<Rightarrow> error + 'k Bip44Base" where
  "AddressIndexGeneric ckd bip_obj addr_idx =
     (case IsLevel bip_obj (LevelsVal CHANGE) of
        Inl e \<Rightarrow> Inl e
      | Inr at_level \<Rightarrow>
          if \<not> at_level then Inl Bip44DepthError
          else (let addr_idx' =
                      (if \<not> IsPrivateUnhardenedDerivationSupported (m_bip32 bip_obj)
                       then HardenIndex addr_idx else addr_idx) in
                case ChildKey ckd (m_bip32 bip_obj) addr_idx' of
                  Inl e \<Rightarrow> Inl e
                | Inr child \<Rightarrow> Bip44Base_init child (m_coin_conf bip_obj)))"

definition DeriveDefaultPathGeneric ::
  "('k Bip32Base \<Rightarrow> int \<Rightarrow> error + 'k) \<Rightarrow> 'k Bip44Base \<Rightarrow> int \<Rightarrow> error + 'k Bip44Base" where
  "DeriveDefaultPathGeneric ckd bip_obj purpose =
     (case IsLevel bip_obj (LevelsVal MASTER) of
        Inl e \<Rightarrow> Inl e
      | Inr at_level \<Rightarrow>
          if \<not> at_level then Inl Bip44DepthError
          else (case PurposeGeneric ckd bip_obj purpose of
                  Inl e \<Rightarrow> Inl e
                | Inr bip_obj1 \<Rightarrow>
                    (case CoinGeneric ckd bip_obj1 of
                       Inl e \<Rightarrow> Inl e
                     | Inr bip_obj2 \<Rightarrow>
                         (case DerivePath ckd (m_bip32 bip_obj2)
                                 (DefaultPath (m_coin_conf bip_obj2)) of
                            Inl e \<Rightarrow> Inl e
                          | Inr derived \<Rightarrow> Bip44Base_init derived (m_coin_conf bip_obj2)))))"

section \<open>Observations and example objects\<close>

text \<open>
  The depth and the key material of the object an operation returns, when it returns one.
\<close>

definition depth_of :: "error + 'k Bip44Base \<Rightarrow> error + int" where
  "depth_of r = (case r of Inl e \<Rightarrow> Inl e | Inr obj \<Rightarrow> Inr (Depth (m_bip32 obj)))"

definition indexes_of :: "error + int list Bip44Base \<Rightarrow> error + int list" where
  "indexes_of r = (case r of Inl e \<Rightarrow> Inl e | Inr obj \<Rightarrow> Inr (KeyData (m_bip32 obj)))"

text \<open>
  An object of coin index 0 with no derivation history, at a given depth, for a key that is
  public-only or not, on a curve that supports unhardened private derivation or not, with a
  given default path.
\<close>

definition example_obj :: "int \<Rightarrow> bool \<Rightarrow> bool \<Rightarrow> int list \<Rightarrow> int list Bip44Base" where
  "example_obj depth public_only unhardened_supported def_path =
     \<lparr>m_bip32 = \<lparr>Depth = depth, IsPublicOnly = public_only,
          IsPrivateUnhardenedDerivationSupported = unhardened_supported, KeyData = []\<rparr>,
      m_coin_conf = \<lparr>CoinIndex = 0, DefaultPath = def_path\<rparr>\<rparr>"

text \<open>
  A derivation that refuses every index that is not hardened, as a curve without
  unhardened private derivation does.
\<close>

definition hardened_only_ckd :: "int list Bip32Base \<Rightarrow> int \<Rightarrow> error + int list" where
  "hardened_only_ckd parent index =
     (if IsHardenedIndex index then Inr (KeyData parent @ [index]) else Inl Bip32KeyError)"

text \<open>
  A derivation that refuses every parent whose depth is \<open>n\<close> or more.
\<close>

definition shallow_ckd :: "int \<Rightarrow> int list Bip32Base \<Rightarrow> int \<Rightarrow> error + int list" where
  "shallow_ckd n parent index =
     (if Depth parent < n then Inr (KeyData parent @ [index]) else Inl Bip32KeyError)"

section \<open>mnemonic\_utils.py: words lists\<close>

text \<open>
  A words list holds the list of words and the dictionary from word to index that the
  constructor builds with one entry per index, in increasing order of the index, so that a
  later index overwrites an earlier one for a repeated word.
\<close>

record MnemonicWordsList =
  m_idx_to_words :: "string list"
  m_words_to_idx :: "string \<rightharpoonup> int"

definition MnemonicWordsList_init :: "string list \<Rightarrow> MnemonicWordsList" where
  "MnemonicWordsList_init words_list =
     \<lparr>m_idx_to_words = words_list,
      m_words_to_idx =
        fold (\<lambda>i d. d(words_list ! i \<mapsto> int i)) [0..<length words_list] Map.empty\<rparr>"

text \<open>The \<open>KeyError\<close> of the dictionary lookup is re-raised as a \<open>ValueError\<close>.\<close>

definition GetWordIdx :: "MnemonicWordsList \<Rightarrow> string \<Rightarrow> error + int" where
  "GetWordIdx self word =
     (case m_words_to_idx self word of
        Some idx \<Rightarrow> Inr idx
      | None \<Rightarrow> Inl ValueError)"

text \<open>
  Indexing a Python list: a negative index counts from the end, and an index outside the
  list raises \<open>IndexError\<close>.
\<close>

definition GetWordAtIdx :: "MnemonicWordsList \<Rightarrow> int \<Rightarrow> error + string" where
  "GetWordAtIdx self word_idx =
     (let words = m_idx_to_words self; len = int (length words) in
      if 0 \<le> word_idx \<and> word_idx < len then Inr (words ! nat word_idx)
      else if - len \<le> word_idx \<and> word_idx < 0 then Inr (words ! nat (len + word_idx))
      else Inl IndexError)"

section \<open>mnemonic\_utils.py: finding the language of a mnemonic\<close>

text \<open>
  The inner loop of \<open>_FindLanguageGeneric\<close>: every word of the mnemonic is looked up, and
  the first word that is not found raises.
\<close>

fun check_words :: "MnemonicWordsList \<Rightarrow> string list \<Rightarrow> error + unit" where
  "check_words words_list [] = Inr ()"
| "check_words words_list (word # rest) =
     (case GetWordIdx words_list word of
        Inl e \<Rightarrow> Inl e
      | Inr idx \<Rightarrow> check_words words_list rest)"

text \<open>
  \<open>_FindLanguageGeneric\<close>. The mnemonic is the list of its words (\<open>mnemonic.ToList()\<close>),
  the enumerative of the languages is the list of its members in order of iteration, and
  \<open>GetByLanguage\<close> is the abstract method of the words list getter, which returns a
  words list or raises. The body of the \<open>try\<close> is the inner \<open>case\<close>; the
  \<open>except ValueError\<close> clause continues with the next language, and every other
  exception leaves the function.
\<close>

fun FindLanguageGeneric ::
  "string list \<Rightarrow> 'l list \<Rightarrow> ('l \<Rightarrow> error + MnemonicWordsList) \<Rightarrow>
     error + MnemonicWordsList \<times> 'l" where
  "FindLanguageGeneric mnemonic [] GetByLanguage = Inl ValueError"
| "FindLanguageGeneric mnemonic (lang # langs) GetByLanguage =
     (case (case GetByLanguage lang of
              Inl e \<Rightarrow> Inl e
            | Inr words_list \<Rightarrow>
                (case check_words words_list mnemonic of
                   Inl e \<Rightarrow> Inl e
                 | Inr u \<Rightarrow> Inr (words_list, lang))) of
        Inl e \<Rightarrow>
          if is_ValueError e then FindLanguageGeneric mnemonic langs GetByLanguage
          else Inl e
      | Inr found \<Rightarrow> Inr found)"

text \<open>
  A getter that builds its words lists with the constructor, from the words that a loader
  finds for a language, as \<open>MnemonicWordsListFileReader.LoadFile\<close> does.
\<close>

definition getter_of :: "('l \<Rightarrow> error + string list) \<Rightarrow> 'l \<Rightarrow> error + MnemonicWordsList" where
  "getter_of load lang =
     (case load lang of Inl e \<Rightarrow> Inl e | Inr ws \<Rightarrow> Inr (MnemonicWordsList_init ws))"

text \<open>
  The notions of the property: a language whose words list contains every word of the
  mnemonic, a language whose words list cannot be had for a reason that is not a
  \<open>ValueError\<close>, and the outcome at the first language in order that is one or the other.
\<close>

definition lang_matches :: "string list \<Rightarrow> ('l \<Rightarrow> error + string list) \<Rightarrow> 'l \<Rightarrow> bool" where
  "lang_matches mnemonic load lang =
     (case load lang of Inl e \<Rightarrow> False | Inr ws \<Rightarrow> list_all (\<lambda>w. w \<in> set ws) mnemonic)"

definition lang_raises_other :: "('l \<Rightarrow> error + string list) \<Rightarrow> 'l \<Rightarrow> bool" where
  "lang_raises_other load lang =
     (case load lang of Inl e \<Rightarrow> \<not> is_ValueError e | Inr ws \<Rightarrow> False)"

definition first_language ::
  "string list \<Rightarrow> 'l list \<Rightarrow> ('l \<Rightarrow> error + string list) \<Rightarrow> error + MnemonicWordsList \<times> 'l" where
  "first_language mnemonic langs load =
     (case find (\<lambda>l. lang_matches mnemonic load l \<or> lang_raises_other load l) langs of
        None \<Rightarrow> Inl ValueError
      | Some l \<Rightarrow>
          (case load l of Inl e \<Rightarrow> Inl e | Inr ws \<Rightarrow> Inr (MnemonicWordsList_init ws, l)))"

text \<open>
  A loader for examples: two languages with a word in common, one whose file has the wrong
  number of words (\<open>ValueError\<close>), and no file for any other language (\<open>open\<close> raises
  an \<open>OSError\<close>).
\<close>

definition example_load :: "string \<Rightarrow> error + string list" where
  "example_load lang =
     (if lang = ''english'' then Inr [''abandon'', ''fatigue'', ''zoo'']
      else if lang = ''french'' then Inr [''abaisser'', ''fatigue'', ''zoologie'']
      else if lang = ''italian'' then Inl ValueError
      else Inl OSError)"

section \<open>substrate\_scale\_enc\_uint.py\<close>

record SubstrateScaleUIntEncoder =
  m_bytes_num :: int
  m_max_val :: int

text \<open>
  The constructor computes \<^verbatim>\<open>(2 << (bytes_num * 8)) - 1\<close>; a negative shift count raises
  \<open>ValueError\<close> in Python.
\<close>

definition SubstrateScaleUIntEncoder_init :: "int \<Rightarrow> error + SubstrateScaleUIntEncoder" where
  "SubstrateScaleUIntEncoder_init bytes_num =
     (if bytes_num * 8 < 0 then Inl ValueError
      else Inr \<lparr>m_bytes_num = bytes_num,
                m_max_val = push_bit (nat (bytes_num * 8)) 2 - 1\<rparr>)"

text \<open>
  Modelled from the spec: \<open>IntegerUtils.ToBytes\<close> (\<open>bip_utils.utils.misc\<close>, not among the
  sources), as \<open>Encode\<close> calls it, with the number of bytes and \<^verbatim>\<open>endianness="little"\<close>.
  The specification leaves the serialization helpers to its external collaborators and
  has no words for this one; the model is Python's \<^verbatim>\<open>int.to_bytes\<close>: the unsigned
  little-endian bytes of the integer, least significant byte first, and an
  \<open>OverflowError\<close> for a negative integer or one that does not fit. For a number of bytes
  of 0 the library chooses the number of bytes itself, the least that holds the integer
  and at least one.
\<close>

fun GetBytesNumber :: "nat \<Rightarrow> nat" where
  "GetBytesNumber v = (if v < 256 then 1 else Suc (GetBytesNumber (v div 256)))"

fun le_bytes :: "nat \<Rightarrow> int \<Rightarrow> 8 word list" where
  "le_bytes 0 v = []"
| "le_bytes (Suc n) v = word_of_int (v mod 256) # le_bytes n (v div 256)"

definition ToBytes_little :: "int \<Rightarrow> int \<Rightarrow> error + 8 word list" where
  "ToBytes_little data_int bytes_num =
     (let bytes_num = (if bytes_num = 0 then int (GetBytesNumber (nat \<bar>data_int\<bar>))
                       else bytes_num) in
      if bytes_num < 0 then Inl ValueError
      else if data_int < 0 \<or> 256 ^ nat bytes_num \<le> data_int then Inl OverflowError
      else Inr (le_bytes (nat bytes_num) data_int))"

definition Encode :: "SubstrateScaleUIntEncoder \<Rightarrow> int \<Rightarrow> error + 8 word list" where
  "Encode self val =
     (if val < 0 \<or> val > m_max_val self then Inl ValueError
      else ToBytes_little val (m_bytes_num self))"

text \<open>The integer that a list of bytes denotes in little-endian order.\<close>

fun le_value :: "8 word list \<Rightarrow> int" where
  "le_value [] = 0"
| "le_value (b # bs) = uint b + 256 * le_value bs"

section \<open>Construction validates the depth\<close>

text \<open>
  C1. Constructing a Bip44Base object from a public-only Bip32 object succeeds exactly when
  the depth lies in [ACCOUNT (3), ADDRESS\_INDEX (5)], and from a Bip32 object that is not
  public-only exactly when the depth lies in [0, ADDRESS\_INDEX (5)]; in every other case
  the constructor raises Bip44DepthError. The constructor performs no derivation: its
  result is decided by the depth and the public-only flag alone, and on success the object
  holds the Bip32 object and the coin configuration unchanged.
\<close>

theorem Bip44Base_init_depth:
  "(IsPublicOnly b \<longrightarrow>
      (3 \<le> Depth b \<and> Depth b \<le> 5 \<longrightarrow>
         Bip44Base_init b c = Inr \<lparr>m_bip32 = b, m_coin_conf = c\<rparr>) \<and>
      (\<not> (3 \<le> Depth b \<and> Depth b \<le> 5) \<longrightarrow> Bip44Base_init b c = Inl Bip44DepthError)) \<and>
   (\<not> IsPublicOnly b \<longrightarrow>
      (0 \<le> Depth b \<and> Depth b \<le> 5 \<longrightarrow>
         Bip44Base_init b c = Inr \<lparr>m_bip32 = b, m_coin_conf = c\<rparr>) \<and>
      (\<not> (0 \<le> Depth b \<and> Depth b \<le> 5) \<longrightarrow> Bip44Base_init b c = Inl Bip44DepthError))"
  by (auto simp: Bip44Base_init_def Let_def)

text \<open>
  The scenario of the specification: a public extended key of depth 2 is refused and one of
  depth 3 is accepted; a private key is accepted at depth 0 and refused at depth 6.
\<close>

theorem Bip44Base_init_depth_witness:
  "Bip44Base_init \<lparr>Depth = 2, IsPublicOnly = True,
       IsPrivateUnhardenedDerivationSupported = True, KeyData = ()\<rparr>
     \<lparr>CoinIndex = 0, DefaultPath = []\<rparr> = Inl Bip44DepthError \<and>
   Bip44Base_init \<lparr>Depth = 3, IsPublicOnly = True,
       IsPrivateUnhardenedDerivationSupported = True, KeyData = ()\<rparr>
     \<lparr>CoinIndex = 0, DefaultPath = []\<rparr> =
     Inr \<lparr>m_bip32 = \<lparr>Depth = 3, IsPublicOnly = True,
            IsPrivateUnhardenedDerivationSupported = True, KeyData = ()\<rparr>,
          m_coin_conf = \<lparr>CoinIndex = 0, DefaultPath = []\<rparr>\<rparr> \<and>
   Bip44Base_init \<lparr>Depth = 0, IsPublicOnly = False,
       IsPrivateUnhardenedDerivationSupported = True, KeyData = ()\<rparr>
     \<lparr>CoinIndex = 0, DefaultPath = []\<rparr> =
     Inr \<lparr>m_bip32 = \<lparr>Depth = 0, IsPublicOnly = False,
            IsPrivateUnhardenedDerivationSupported = True, KeyData = ()\<rparr>,
          m_coin_conf = \<lparr>CoinIndex = 0, DefaultPath = []\<rparr>\<rparr> \<and>
   Bip44Base_init \<lparr>Depth = 6, IsPublicOnly = False,
       IsPrivateUnhardenedDerivationSupported = True, KeyData = ()\<rparr>
     \<lparr>CoinIndex = 0, DefaultPath = []\<rparr> = Inl Bip44DepthError"
  using
    Bip44Base_init_depth [of "\<lparr>Depth = 2, IsPublicOnly = True,
       IsPrivateUnhardenedDerivationSupported = True, KeyData = ()\<rparr>"
       "\<lparr>CoinIndex = 0, DefaultPath = []\<rparr>"]
    Bip44Base_init_depth [of "\<lparr>Depth = 3, IsPublicOnly = True,
       IsPrivateUnhardenedDerivationSupported = True, KeyData = ()\<rparr>"
       "\<lparr>CoinIndex = 0, DefaultPath = []\<rparr>"]
    Bip44Base_init_depth [of "\<lparr>Depth = 0, IsPublicOnly = False,
       IsPrivateUnhardenedDerivationSupported = True, KeyData = ()\<rparr>"
       "\<lparr>CoinIndex = 0, DefaultPath = []\<rparr>"]
    Bip44Base_init_depth [of "\<lparr>Depth = 6, IsPublicOnly = False,
       IsPrivateUnhardenedDerivationSupported = True, KeyData = ()\<rparr>"
       "\<lparr>CoinIndex = 0, DefaultPath = []\<rparr>"]
  by simp

section \<open>Facts about the derivation steps\<close>

lemma IsLevel_LevelsVal:
  "IsLevel obj (LevelsVal l) = Inr (Depth (m_bip32 obj) = int_of_level l)"
  by (simp add: IsLevel_def)

lemma Bip44Base_init_Inr:
  "Bip44Base_init b c = Inr obj \<Longrightarrow> obj = \<lparr>m_bip32 = b, m_coin_conf = c\<rparr>"
  by (auto simp: Bip44Base_init_def Let_def split: if_splits)

lemma ChildKey_Inr:
  "ChildKey ckd parent index = Inr child \<Longrightarrow>
     \<exists>k. ckd parent index = Inr k \<and> child = parent\<lparr>Depth := Depth parent + 1, KeyData := k\<rparr>"
  by (auto simp: ChildKey_def split: sum.splits)

lemma ChildKey_depth:
  "ChildKey ckd parent index = Inr child \<Longrightarrow> Depth child = Depth parent + 1"
  by (auto dest: ChildKey_Inr)

lemma DerivePath_depth:
  "DerivePath ckd b path = Inr d \<Longrightarrow> Depth d = Depth b + int (length path)"
  by (induction path arbitrary: b) (auto split: sum.splits dest: ChildKey_depth)

lemma DerivePath_path_ckd:
  "DerivePath path_ckd b path = Inr d \<Longrightarrow> KeyData d = KeyData b @ path"
  by (induction path arbitrary: b) (auto simp: ChildKey_def path_ckd_def split: sum.splits)

lemma DerivePath_first_failure:
  "DerivePath ckd b xs = Inr b' \<Longrightarrow> ChildKey ckd b' i = Inl e \<Longrightarrow>
     DerivePath ckd b (xs @ i # ys) = Inl e"
  by (induction xs arbitrary: b) (auto split: sum.splits)

lemma HardenIndex_hardened: "IsHardenedIndex (HardenIndex i)"
  by (simp add: IsHardenedIndex_def HardenIndex_def bit_or_iff bit_exp_iff)

lemma int_of_change_not_hardened: "\<not> IsHardenedIndex (int_of_change ct)"
  by (cases ct) (simp_all add: IsHardenedIndex_def bit_1_iff)

lemma step_Inr:
  "(case ChildKey ckd (m_bip32 obj) i of Inl e \<Rightarrow> Inl e
    | Inr child \<Rightarrow> Bip44Base_init child (m_coin_conf obj)) = Inr c \<Longrightarrow>
   ChildKey ckd (m_bip32 obj) i = Inr (m_bip32 c) \<and> m_coin_conf c = m_coin_conf obj"
  by (auto split: sum.splits dest: Bip44Base_init_Inr)

lemma PurposeGeneric_Inr:
  "PurposeGeneric ckd obj purpose = Inr c \<Longrightarrow>
     Depth (m_bip32 obj) = 0 \<and> ChildKey ckd (m_bip32 obj) purpose = Inr (m_bip32 c) \<and>
     m_coin_conf c = m_coin_conf obj"
  unfolding PurposeGeneric_def IsLevel_LevelsVal
  by (auto split: if_splits dest!: step_Inr)

lemma CoinGeneric_Inr:
  "CoinGeneric ckd obj = Inr c \<Longrightarrow>
     Depth (m_bip32 obj) = 1 \<and>
     ChildKey ckd (m_bip32 obj) (HardenIndex (CoinIndex (m_coin_conf obj))) = Inr (m_bip32 c) \<and>
     m_coin_conf c = m_coin_conf obj"
  unfolding CoinGeneric_def IsLevel_LevelsVal Let_def
  by (auto split: if_splits dest!: step_Inr)

lemma AccountGeneric_Inr:
  "AccountGeneric ckd obj acc_idx = Inr c \<Longrightarrow>
     Depth (m_bip32 obj) = 2 \<and>
     ChildKey ckd (m_bip32 obj) (HardenIndex acc_idx) = Inr (m_bip32 c) \<and>
     m_coin_conf c = m_coin_conf obj"
  unfolding AccountGeneric_def IsLevel_LevelsVal
  by (auto split: if_splits dest!: step_Inr)

lemma ChangeGeneric_Inr:
  "ChangeGeneric ckd obj change_type = Inr c \<Longrightarrow>
     Depth (m_bip32 obj) = 3 \<and>
     (\<exists>ct. change_type = ChangesVal ct \<and>
        ChildKey ckd (m_bip32 obj) (change_idx obj ct) = Inr (m_bip32 c)) \<and>
     m_coin_conf c = m_coin_conf obj"
  unfolding ChangeGeneric_def IsLevel_LevelsVal
  by (auto split: if_splits py_value.splits dest!: step_Inr)

lemma AddressIndexGeneric_Inr:
  "AddressIndexGeneric ckd obj addr_idx = Inr c \<Longrightarrow>
     Depth (m_bip32 obj) = 4 \<and>
     ChildKey ckd (m_bip32 obj)
       (if \<not> IsPrivateUnhardenedDerivationSupported (m_bip32 obj)
        then HardenIndex addr_idx else addr_idx) = Inr (m_bip32 c) \<and>
     m_coin_conf c = m_coin_conf obj"
  unfolding AddressIndexGeneric_def IsLevel_LevelsVal Let_def
  by (auto split: if_splits dest!: step_Inr)

lemma DeriveDefaultPathGeneric_Inr:
  "DeriveDefaultPathGeneric ckd obj purpose = Inr c \<Longrightarrow>
     Depth (m_bip32 obj) = 0 \<and>
     DerivePath ckd (m_bip32 obj)
       (purpose # HardenIndex (CoinIndex (m_coin_conf obj)) # DefaultPath (m_coin_conf obj)) =
       Inr (m_bip32 c) \<and>
     m_coin_conf c = m_coin_conf obj"
  unfolding DeriveDefaultPathGeneric_def IsLevel_LevelsVal
  by (auto split: if_splits sum.splits
      dest!: PurposeGeneric_Inr CoinGeneric_Inr Bip44Base_init_Inr)

text \<open>Evaluation of the operations on concrete objects.\<close>

lemmas bip44_eval =
  depth_of_def indexes_of_def example_obj_def IsLevel_def ChildKey_def path_ckd_def
  hardened_only_ckd_def Bip44Base_init_def PurposeGeneric_def CoinGeneric_def
  AccountGeneric_def ChangeGeneric_def AddressIndexGeneric_def DeriveDefaultPathGeneric_def
  change_idx_def HardenIndex_hardened

lemma small_index_not_hardened: "\<not> IsHardenedIndex 0" "\<not> IsHardenedIndex 1"
  by (simp_all add: IsHardenedIndex_def bit_1_iff)

lemmas bip44_eval_more = bip44_eval shallow_ckd_def small_index_not_hardened

section \<open>The depth guards of the derivation steps\<close>

text \<open>
  C2. Each single-step derivation has an exact-depth guard. For every object, every
  derivation of key material and every argument, \<open>Purpose\<close> called at a depth other than
  MASTER (0), \<open>Coin\<close> at a depth other than PURPOSE (1), \<open>Account\<close> at a depth other than
  COIN (2), \<open>Change\<close> (with a change type of \<open>Bip44Changes\<close>, the class the operation is
  declared for) at a depth other than ACCOUNT (3) and \<open>AddressIndex\<close> at a depth other
  than CHANGE (4) raise Bip44DepthError; and whenever one of them returns an object, with
  any argument at all, the depth was the required one.
\<close>

theorem step_depth_guards:
  "(Depth (m_bip32 obj) \<noteq> 0 \<longrightarrow> PurposeGeneric ckd obj purpose = Inl Bip44DepthError) \<and>
   (Depth (m_bip32 obj) \<noteq> 1 \<longrightarrow> CoinGeneric ckd obj = Inl Bip44DepthError) \<and>
   (Depth (m_bip32 obj) \<noteq> 2 \<longrightarrow> AccountGeneric ckd obj acc_idx = Inl Bip44DepthError) \<and>
   (Depth (m_bip32 obj) \<noteq> 3 \<longrightarrow>
      ChangeGeneric ckd obj (ChangesVal ct) = Inl Bip44DepthError) \<and>
   (Depth (m_bip32 obj) \<noteq> 4 \<longrightarrow>
      AddressIndexGeneric ckd obj addr_idx = Inl Bip44DepthError) \<and>
   ((\<exists>c. PurposeGeneric ckd obj purpose = Inr c) \<longrightarrow> Depth (m_bip32 obj) = 0) \<and>
   ((\<exists>c. CoinGeneric ckd obj = Inr c) \<longrightarrow> Depth (m_bip32 obj) = 1) \<and>
   ((\<exists>c. AccountGeneric ckd obj acc_idx = Inr c) \<longrightarrow> Depth (m_bip32 obj) = 2) \<and>
   ((\<exists>c. ChangeGeneric ckd obj change_type = Inr c) \<longrightarrow> Depth (m_bip32 obj) = 3) \<and>
   ((\<exists>c. AddressIndexGeneric ckd obj addr_idx = Inr c) \<longrightarrow> Depth (m_bip32 obj) = 4)"
  by (auto simp: PurposeGeneric_def CoinGeneric_def AccountGeneric_def ChangeGeneric_def
      AddressIndexGeneric_def IsLevel_LevelsVal Let_def split: if_splits py_value.splits)

text \<open>
  Each step is refused one level off its own and accepted at its own level.
\<close>

theorem step_depth_guards_witness:
  "PurposeGeneric path_ckd (example_obj 1 False True []) 44 = Inl Bip44DepthError \<and>
   CoinGeneric path_ckd (example_obj 0 False True []) = Inl Bip44DepthError \<and>
   AccountGeneric path_ckd (example_obj 3 False True []) 0 = Inl Bip44DepthError \<and>
   ChangeGeneric path_ckd (example_obj 2 False True []) (ChangesVal CHAIN_EXT) =
     Inl Bip44DepthError \<and>
   AddressIndexGeneric path_ckd (example_obj 5 False True []) 0 = Inl Bip44DepthError \<and>
   depth_of (PurposeGeneric path_ckd (example_obj 0 False True []) 44) = Inr 1 \<and>
   depth_of (CoinGeneric path_ckd (example_obj 1 False True [])) = Inr 2 \<and>
   depth_of (AccountGeneric path_ckd (example_obj 2 False True []) 0) = Inr 3 \<and>
   depth_of (ChangeGeneric path_ckd (example_obj 3 False True []) (ChangesVal CHAIN_INT)) =
     Inr 4 \<and>
   depth_of (AddressIndexGeneric path_ckd (example_obj 4 False True []) 7) = Inr 5"
  using
    step_depth_guards [where obj = "example_obj 1 False True []" and ckd = path_ckd
      and purpose = 44]
    step_depth_guards [where obj = "example_obj 0 False True []" and ckd = path_ckd]
    step_depth_guards [where obj = "example_obj 3 False True []" and ckd = path_ckd
      and acc_idx = 0]
    step_depth_guards [where obj = "example_obj 2 False True []" and ckd = path_ckd
      and ct = CHAIN_EXT]
    step_depth_guards [where obj = "example_obj 5 False True []" and ckd = path_ckd
      and addr_idx = 0]
  by (simp add: bip44_eval)

section \<open>Wrong enumeratives\<close>

text \<open>
  C7. For every object, \<open>IsLevel\<close> raises TypeError exactly when its argument is not a
  \<open>Bip44Levels\<close> value, and \<open>Change\<close> raises TypeError whenever its argument is not a
  \<open>Bip44Changes\<close> value: at every depth, so the TypeError comes before the depth guard,
  and for every derivation of key material, even one that would fail otherwise, so no
  child key is computed.
\<close>

theorem wrong_enumerative_TypeError:
  "((IsLevel obj level = Inl TypeError) = (\<forall>l. level \<noteq> LevelsVal l)) \<and>
   ((\<forall>ct. change_type \<noteq> ChangesVal ct) \<longrightarrow>
      ChangeGeneric ckd obj change_type = Inl TypeError)"
  by (cases level; cases change_type) (simp_all add: IsLevel_def ChangeGeneric_def)

theorem wrong_enumerative_TypeError_witness:
  "IsLevel (example_obj 0 False True []) (IntVal 0) = Inl TypeError \<and>
   IsLevel (example_obj 0 False True []) (ChangesVal CHAIN_EXT) = Inl TypeError \<and>
   ChangeGeneric path_ckd (example_obj 0 False True []) (IntVal 0) = Inl TypeError \<and>
   ChangeGeneric hardened_only_ckd (example_obj 3 False True []) (LevelsVal ACCOUNT) =
     Inl TypeError"
  using
    wrong_enumerative_TypeError [where obj = "example_obj 0 False True []"
      and level = "IntVal 0" and change_type = "IntVal 0" and ckd = path_ckd]
    wrong_enumerative_TypeError [where obj = "example_obj 3 False True []"
      and level = "ChangesVal CHAIN_EXT" and change_type = "LevelsVal ACCOUNT"
      and ckd = hardened_only_ckd]
  by (simp add: bip44_eval)

section \<open>Depth monotonicity\<close>

text \<open>
  C5. After a successful \<open>Purpose\<close>, \<open>Coin\<close>, \<open>Account\<close>, \<open>Change\<close> or \<open>AddressIndex\<close>
  the depth of the returned object is the depth of the parent plus one, and the object that
  \<open>DeriveDefaultPath\<close> returns is not above the object it was derived from: no derivation
  of the interface decreases the depth.
\<close>

theorem depth_monotone:
  "(PurposeGeneric ckd obj purpose = Inr c \<longrightarrow> Depth (m_bip32 c) = Depth (m_bip32 obj) + 1) \<and>
   (CoinGeneric ckd obj = Inr c \<longrightarrow> Depth (m_bip32 c) = Depth (m_bip32 obj) + 1) \<and>
   (AccountGeneric ckd obj acc_idx = Inr c \<longrightarrow> Depth (m_bip32 c) = Depth (m_bip32 obj) + 1) \<and>
   (ChangeGeneric ckd obj change_type = Inr c \<longrightarrow>
      Depth (m_bip32 c) = Depth (m_bip32 obj) + 1) \<and>
   (AddressIndexGeneric ckd obj addr_idx = Inr c \<longrightarrow>
      Depth (m_bip32 c) = Depth (m_bip32 obj) + 1) \<and>
   (DeriveDefaultPathGeneric ckd obj purpose = Inr c \<longrightarrow>
      Depth (m_bip32 obj) \<le> Depth (m_bip32 c))"
  by (auto dest!: PurposeGeneric_Inr CoinGeneric_Inr AccountGeneric_Inr ChangeGeneric_Inr
      AddressIndexGeneric_Inr DeriveDefaultPathGeneric_Inr ChildKey_depth DerivePath_depth)

text \<open>
  One successful call of each operation, from the depth that it requires.
\<close>

theorem depth_monotone_witness:
  "depth_of (PurposeGeneric path_ckd (example_obj 0 False True []) 44) = Inr (0 + 1) \<and>
   depth_of (CoinGeneric path_ckd (example_obj 1 False True [])) = Inr (1 + 1) \<and>
   depth_of (AccountGeneric path_ckd (example_obj 2 False True []) 0) = Inr (2 + 1) \<and>
   depth_of (ChangeGeneric path_ckd (example_obj 3 False True []) (ChangesVal CHAIN_EXT)) =
     Inr (3 + 1) \<and>
   depth_of (AddressIndexGeneric path_ckd (example_obj 4 False True []) 0) = Inr (4 + 1) \<and>
   depth_of (DeriveDefaultPathGeneric path_ckd (example_obj 0 False True [HardenIndex 0, 0, 0])
      (HardenIndex 44)) = Inr 5"
  using
    depth_monotone [where ckd = path_ckd and obj = "example_obj 0 False True []"
      and purpose = 44
      and c = "projr (PurposeGeneric path_ckd (example_obj 0 False True []) 44)"]
    depth_monotone [where ckd = path_ckd and obj = "example_obj 1 False True []"
      and c = "projr (CoinGeneric path_ckd (example_obj 1 False True []))"]
    depth_monotone [where ckd = path_ckd and obj = "example_obj 2 False True []"
      and acc_idx = 0
      and c = "projr (AccountGeneric path_ckd (example_obj 2 False True []) 0)"]
    depth_monotone [where ckd = path_ckd and obj = "example_obj 3 False True []"
      and change_type = "ChangesVal CHAIN_EXT"
      and c = "projr (ChangeGeneric path_ckd (example_obj 3 False True [])
                 (ChangesVal CHAIN_EXT))"]
    depth_monotone [where ckd = path_ckd and obj = "example_obj 4 False True []"
      and addr_idx = 0
      and c = "projr (AddressIndexGeneric path_ckd (example_obj 4 False True []) 0)"]
    depth_monotone [where ckd = path_ckd
      and obj = "example_obj 0 False True [HardenIndex 0, 0, 0]"
      and purpose = "HardenIndex 44"
      and c = "projr (DeriveDefaultPathGeneric path_ckd
                 (example_obj 0 False True [HardenIndex 0, 0, 0]) (HardenIndex 44))"]
  by (simp add: bip44_eval)

section \<open>The child index of the change step\<close>

text \<open>
  C3 as the specification states it fails on the second half: with a default path whose
  elements are all hardened, on a curve that supports unhardened private derivation,
  \<open>DeriveDefaultPath\<close> derives the change step (the fourth index of the walk) with the
  hardened index 0', while \<open>Change\<close> on the same curve uses the index 0, not hardened.
\<close>

theorem default_path_change_step_counterexample:
  "IsPrivateUnhardenedDerivationSupported
     (m_bip32 (example_obj 0 False True [HardenIndex 0, HardenIndex 0, HardenIndex 0])) \<and>
   indexes_of (DeriveDefaultPathGeneric path_ckd
      (example_obj 0 False True [HardenIndex 0, HardenIndex 0, HardenIndex 0])
      (HardenIndex 84)) =
     Inr [HardenIndex 84, HardenIndex 0, HardenIndex 0, HardenIndex 0, HardenIndex 0] \<and>
   IsHardenedIndex (HardenIndex 0) \<and>
   indexes_of (ChangeGeneric path_ckd
      (example_obj 3 False True [HardenIndex 0, HardenIndex 0, HardenIndex 0])
      (ChangesVal CHAIN_EXT)) = Inr [0] \<and>
   \<not> IsHardenedIndex 0"
  by (simp add: bip44_eval small_index_not_hardened)

text \<open>
  C3, amended. For every object and every change type of \<open>Bip44Changes\<close>, the child index
  that \<open>Change\<close> computes is hardened if and only if the curve does not support unhardened
  private derivation, and at ACCOUNT level it is the index handed to \<open>ChildKey\<close>.
  \<open>DeriveDefaultPath\<close> does not consult that capability: the indexes it derives are the
  purpose, the hardened coin index and then the elements of the default path of the coin
  configuration as they are configured, so its change step is hardened exactly when the
  second element of the configured default path is.
\<close>

theorem change_index_hardening:
  "IsHardenedIndex (change_idx obj ct) =
     (\<not> IsPrivateUnhardenedDerivationSupported (m_bip32 obj)) \<and>
   (Depth (m_bip32 obj) = 3 \<longrightarrow>
      ChangeGeneric ckd obj (ChangesVal ct) =
        (case ChildKey ckd (m_bip32 obj) (change_idx obj ct) of
           Inl e \<Rightarrow> Inl e
         | Inr child \<Rightarrow> Bip44Base_init child (m_coin_conf obj))) \<and>
   (ChangeGeneric path_ckd tobj (ChangesVal ct) = Inr tc \<longrightarrow>
      KeyData (m_bip32 tc) = KeyData (m_bip32 tobj) @ [change_idx tobj ct]) \<and>
   (DeriveDefaultPathGeneric path_ckd tobj purpose = Inr td \<longrightarrow>
      KeyData (m_bip32 td) =
        KeyData (m_bip32 tobj) @
        purpose # HardenIndex (CoinIndex (m_coin_conf tobj)) # DefaultPath (m_coin_conf tobj))"
proof (intro conjI impI)
  show "IsHardenedIndex (change_idx obj ct) =
     (\<not> IsPrivateUnhardenedDerivationSupported (m_bip32 obj))"
    by (simp add: change_idx_def HardenIndex_hardened int_of_change_not_hardened)
next
  assume "Depth (m_bip32 obj) = 3"
  then show "ChangeGeneric ckd obj (ChangesVal ct) =
        (case ChildKey ckd (m_bip32 obj) (change_idx obj ct) of
           Inl e \<Rightarrow> Inl e
         | Inr child \<Rightarrow> Bip44Base_init child (m_coin_conf obj))"
    by (simp add: ChangeGeneric_def IsLevel_LevelsVal)
next
  assume "ChangeGeneric path_ckd tobj (ChangesVal ct) = Inr tc"
  then have "ChildKey path_ckd (m_bip32 tobj) (change_idx tobj ct) = Inr (m_bip32 tc)"
    by (auto dest: ChangeGeneric_Inr)
  then show "KeyData (m_bip32 tc) = KeyData (m_bip32 tobj) @ [change_idx tobj ct]"
    by (auto simp: path_ckd_def dest!: ChildKey_Inr)
next
  assume "DeriveDefaultPathGeneric path_ckd tobj purpose = Inr td"
  then show "KeyData (m_bip32 td) =
        KeyData (m_bip32 tobj) @
        purpose # HardenIndex (CoinIndex (m_coin_conf tobj)) # DefaultPath (m_coin_conf tobj)"
    by (auto dest!: DeriveDefaultPathGeneric_Inr DerivePath_path_ckd)
qed

theorem change_index_hardening_witness:
  "IsHardenedIndex (change_idx (example_obj 3 False False [HardenIndex 0, 0, 0]) CHAIN_INT) \<and>
   indexes_of (ChangeGeneric path_ckd (example_obj 3 False False [HardenIndex 0, 0, 0])
      (ChangesVal CHAIN_INT)) = Inr [HardenIndex 1] \<and>
   indexes_of (ChangeGeneric path_ckd (example_obj 3 False True [HardenIndex 0, 0, 0])
      (ChangesVal CHAIN_INT)) = Inr [1] \<and>
   indexes_of (DeriveDefaultPathGeneric path_ckd
      (example_obj 0 False False [HardenIndex 0, 0, 0]) (HardenIndex 84)) =
     Inr [HardenIndex 84, HardenIndex 0, HardenIndex 0, 0, 0]"
  using
    change_index_hardening [where obj = "example_obj 3 False False [HardenIndex 0, 0, 0]"
      and ct = CHAIN_INT and ckd = path_ckd
      and tobj = "example_obj 3 False False [HardenIndex 0, 0, 0]"
      and tc = "projr (ChangeGeneric path_ckd
                  (example_obj 3 False False [HardenIndex 0, 0, 0]) (ChangesVal CHAIN_INT))"]
    change_index_hardening [where obj = "example_obj 3 False True [HardenIndex 0, 0, 0]"
      and ct = CHAIN_INT and ckd = path_ckd
      and tobj = "example_obj 0 False False [HardenIndex 0, 0, 0]"
      and purpose = "HardenIndex 84"
      and td = "projr (DeriveDefaultPathGeneric path_ckd
                  (example_obj 0 False False [HardenIndex 0, 0, 0]) (HardenIndex 84))"]
  by (simp add: bip44_eval)

section \<open>The default path\<close>

text \<open>
  C4 as the specification states it fails on the level of the result: with a default path
  of one element (an account-level default path) \<open>DeriveDefaultPath\<close> succeeds from a
  master key and returns an object at ACCOUNT level (3), not at ADDRESS\_INDEX level (5).
\<close>

theorem default_path_level_counterexample:
  "depth_of (DeriveDefaultPathGeneric path_ckd (example_obj 0 False False [HardenIndex 0])
      (HardenIndex 44)) = Inr 3 \<and>
   indexes_of (DeriveDefaultPathGeneric path_ckd (example_obj 0 False False [HardenIndex 0])
      (HardenIndex 44)) = Inr [HardenIndex 44, HardenIndex 0, HardenIndex 0] \<and>
   int_of_level ACCOUNT = 3 \<and> int_of_level ADDRESS_INDEX = 5"
  by (simp add: bip44_eval)

text \<open>
  C4, amended. \<open>DeriveDefaultPath\<close> raises Bip44DepthError at every depth other than
  MASTER (0). When it succeeds, the Bip32 object of the result is the one obtained from
  the parent by deriving the purpose, the hardened coin index and the elements of the
  default path of the coin configuration, left to right; the coin configuration is kept;
  the depth of the result is COIN (2) plus the number of elements of the default path,
  which is ADDRESS\_INDEX level when the default path has three elements. An error of the
  purpose step, of the coin step or of the walk along the default path is the result of
  the call, the walk stops at the first index that fails, and an error leaves no object.
\<close>

theorem DeriveDefaultPath_sequence:
  "(Depth (m_bip32 obj) \<noteq> 0 \<longrightarrow>
      DeriveDefaultPathGeneric ckd obj purpose = Inl Bip44DepthError) \<and>
   (DeriveDefaultPathGeneric ckd obj purpose = Inr c \<longrightarrow>
      Depth (m_bip32 obj) = 0 \<and>
      DerivePath ckd (m_bip32 obj)
        (purpose # HardenIndex (CoinIndex (m_coin_conf obj)) # DefaultPath (m_coin_conf obj)) =
        Inr (m_bip32 c) \<and>
      m_coin_conf c = m_coin_conf obj \<and>
      Depth (m_bip32 c) = 2 + int (length (DefaultPath (m_coin_conf obj))) \<and>
      (length (DefaultPath (m_coin_conf obj)) = 3 \<longrightarrow>
         IsLevel c (LevelsVal ADDRESS_INDEX) = Inr True)) \<and>
   (PurposeGeneric ckd obj purpose = Inl e \<longrightarrow>
      DeriveDefaultPathGeneric ckd obj purpose = Inl e) \<and>
   (PurposeGeneric ckd obj purpose = Inr o1 \<and> CoinGeneric ckd o1 = Inl e \<longrightarrow>
      DeriveDefaultPathGeneric ckd obj purpose = Inl e) \<and>
   (PurposeGeneric ckd obj purpose = Inr o1 \<and> CoinGeneric ckd o1 = Inr o2 \<and>
    DerivePath ckd (m_bip32 o2) (DefaultPath (m_coin_conf o2)) = Inl e \<longrightarrow>
      DeriveDefaultPathGeneric ckd obj purpose = Inl e) \<and>
   (DerivePath ckd b xs = Inr b' \<and> ChildKey ckd b' i = Inl e \<longrightarrow>
      DerivePath ckd b (xs @ i # ys) = Inl e)"
proof (intro conjI impI)
  assume "Depth (m_bip32 obj) \<noteq> 0"
  then show "DeriveDefaultPathGeneric ckd obj purpose = Inl Bip44DepthError"
    by (simp add: DeriveDefaultPathGeneric_def IsLevel_LevelsVal)
next
  assume ok: "DeriveDefaultPathGeneric ckd obj purpose = Inr c"
  note facts = DeriveDefaultPathGeneric_Inr [OF ok]
  show "Depth (m_bip32 obj) = 0" "m_coin_conf c = m_coin_conf obj"
    "DerivePath ckd (m_bip32 obj)
        (purpose # HardenIndex (CoinIndex (m_coin_conf obj)) # DefaultPath (m_coin_conf obj)) =
        Inr (m_bip32 c)"
    using facts by simp_all
  show depth: "Depth (m_bip32 c) = 2 + int (length (DefaultPath (m_coin_conf obj)))"
    using facts DerivePath_depth [of ckd "m_bip32 obj"
        "purpose # HardenIndex (CoinIndex (m_coin_conf obj)) # DefaultPath (m_coin_conf obj)"
        "m_bip32 c"]
    by simp
  assume "length (DefaultPath (m_coin_conf obj)) = 3"
  with depth show "IsLevel c (LevelsVal ADDRESS_INDEX) = Inr True"
    by (simp add: IsLevel_LevelsVal)
next
  assume "PurposeGeneric ckd obj purpose = Inl e"
  then show "DeriveDefaultPathGeneric ckd obj purpose = Inl e"
    by (auto simp: DeriveDefaultPathGeneric_def PurposeGeneric_def IsLevel_LevelsVal
        split: if_splits)
next
  assume "PurposeGeneric ckd obj purpose = Inr o1 \<and> CoinGeneric ckd o1 = Inl e"
  then show "DeriveDefaultPathGeneric ckd obj purpose = Inl e"
    by (auto simp: DeriveDefaultPathGeneric_def IsLevel_LevelsVal dest: PurposeGeneric_Inr)
next
  assume "PurposeGeneric ckd obj purpose = Inr o1 \<and> CoinGeneric ckd o1 = Inr o2 \<and>
    DerivePath ckd (m_bip32 o2) (DefaultPath (m_coin_conf o2)) = Inl e"
  then show "DeriveDefaultPathGeneric ckd obj purpose = Inl e"
    by (auto simp: DeriveDefaultPathGeneric_def IsLevel_LevelsVal dest: PurposeGeneric_Inr)
next
  assume "DerivePath ckd b xs = Inr b' \<and> ChildKey ckd b' i = Inl e"
  then show "DerivePath ckd b (xs @ i # ys) = Inl e"
    by (simp add: DerivePath_first_failure)
qed

theorem DeriveDefaultPath_sequence_witness:
  "DeriveDefaultPathGeneric path_ckd (example_obj 1 False True [HardenIndex 0, 0, 0])
      (HardenIndex 44) = Inl Bip44DepthError \<and>
   indexes_of (DeriveDefaultPathGeneric path_ckd (example_obj 0 False True [HardenIndex 0, 0, 0])
      (HardenIndex 44)) = Inr [HardenIndex 44, HardenIndex 0, HardenIndex 0, 0, 0] \<and>
   depth_of (DeriveDefaultPathGeneric path_ckd (example_obj 0 False True [HardenIndex 0, 0, 0])
      (HardenIndex 44)) = Inr 5 \<and>
   DeriveDefaultPathGeneric (shallow_ckd 0) (example_obj 0 False True [HardenIndex 0, 0, 0])
      (HardenIndex 44) = Inl Bip32KeyError \<and>
   DeriveDefaultPathGeneric (shallow_ckd 1) (example_obj 0 False True [HardenIndex 0, 0, 0])
      (HardenIndex 44) = Inl Bip32KeyError \<and>
   DeriveDefaultPathGeneric hardened_only_ckd
      (example_obj 0 False False [HardenIndex 0, 0, 0]) (HardenIndex 44) = Inl Bip32KeyError"
proof -
  let ?conf = "[HardenIndex 0, 0, 0]"
  have guard: "DeriveDefaultPathGeneric path_ckd (example_obj 1 False True ?conf)
      (HardenIndex 44) = Inl Bip44DepthError"
    using DeriveDefaultPath_sequence [where ckd = path_ckd
        and obj = "example_obj 1 False True ?conf" and purpose = "HardenIndex 44",
        THEN conjunct1]
    by (simp add: example_obj_def)
  have ok: "DeriveDefaultPathGeneric path_ckd (example_obj 0 False True ?conf) (HardenIndex 44) =
      Inr \<lparr>m_bip32 = \<lparr>Depth = 5, IsPublicOnly = False,
               IsPrivateUnhardenedDerivationSupported = True,
               KeyData = [HardenIndex 44, HardenIndex 0, HardenIndex 0, 0, 0]\<rparr>,
           m_coin_conf = \<lparr>CoinIndex = 0, DefaultPath = ?conf\<rparr>\<rparr>"
    by (simp add: bip44_eval)
  have depth: "depth_of (DeriveDefaultPathGeneric path_ckd (example_obj 0 False True ?conf)
      (HardenIndex 44)) = Inr 5"
    using DeriveDefaultPath_sequence [where ckd = path_ckd
        and obj = "example_obj 0 False True ?conf" and purpose = "HardenIndex 44",
        THEN conjunct2, THEN conjunct1, rule_format, OF ok]
    by (simp add: ok depth_of_def)
  have purpose_fails: "PurposeGeneric (shallow_ckd 0) (example_obj 0 False True ?conf)
      (HardenIndex 44) = Inl Bip32KeyError"
    by (simp add: bip44_eval_more)
  have e1: "DeriveDefaultPathGeneric (shallow_ckd 0) (example_obj 0 False True ?conf)
      (HardenIndex 44) = Inl Bip32KeyError"
    using DeriveDefaultPath_sequence [where ckd = "shallow_ckd 0"
        and obj = "example_obj 0 False True ?conf" and purpose = "HardenIndex 44"
        and e = Bip32KeyError, THEN conjunct2, THEN conjunct2, THEN conjunct1] purpose_fails
    by simp
  have purpose_ok: "PurposeGeneric (shallow_ckd 1) (example_obj 0 False True ?conf)
      (HardenIndex 44) =
      Inr \<lparr>m_bip32 = \<lparr>Depth = 1, IsPublicOnly = False,
               IsPrivateUnhardenedDerivationSupported = True, KeyData = [HardenIndex 44]\<rparr>,
           m_coin_conf = \<lparr>CoinIndex = 0, DefaultPath = ?conf\<rparr>\<rparr>"
    by (simp add: bip44_eval_more)
  have coin_fails: "CoinGeneric (shallow_ckd 1)
      \<lparr>m_bip32 = \<lparr>Depth = 1, IsPublicOnly = False,
               IsPrivateUnhardenedDerivationSupported = True, KeyData = [HardenIndex 44]\<rparr>,
        m_coin_conf = \<lparr>CoinIndex = 0, DefaultPath = ?conf\<rparr>\<rparr> = Inl Bip32KeyError"
    by (simp add: bip44_eval_more)
  have e2: "DeriveDefaultPathGeneric (shallow_ckd 1) (example_obj 0 False True ?conf)
      (HardenIndex 44) = Inl Bip32KeyError"
    using DeriveDefaultPath_sequence [where ckd = "shallow_ckd 1"
        and obj = "example_obj 0 False True ?conf" and purpose = "HardenIndex 44"
        and e = Bip32KeyError, THEN conjunct2, THEN conjunct2, THEN conjunct2, THEN conjunct1]
      purpose_ok coin_fails
    by simp
  have e3: "DeriveDefaultPathGeneric hardened_only_ckd
      (example_obj 0 False False ?conf) (HardenIndex 44) = Inl Bip32KeyError"
    by (simp add: bip44_eval_more)
  show ?thesis
    using guard ok depth e1 e2 e3 by (simp add: indexes_of_def)
qed

section \<open>Words lists: index and word\<close>

lemma fold_upd_None:
  "n \<le> length ws \<Longrightarrow> w \<notin> set (take n ws) \<Longrightarrow>
     fold (\<lambda>i d. d(ws ! i \<mapsto> int i)) [0..<n] Map.empty w = None"
proof (induction n)
  case 0
  then show ?case by simp
next
  case (Suc n)
  then have "w \<notin> set (take n ws)" "ws ! n \<noteq> w"
    by (auto simp: take_Suc_conv_app_nth)
  with Suc show ?case by simp
qed

lemma fold_upd_Some:
  "n \<le> length ws \<Longrightarrow> distinct ws \<Longrightarrow> i < n \<Longrightarrow>
     fold (\<lambda>i d. d(ws ! i \<mapsto> int i)) [0..<n] Map.empty (ws ! i) = Some (int i)"
proof (induction n)
  case 0
  then show ?case by simp
next
  case (Suc n)
  show ?case
  proof (cases "i = n")
    case True
    then show ?thesis by simp
  next
    case False
    with Suc.prems have "i < n" "ws ! n \<noteq> ws ! i"
      by (auto simp: nth_eq_iff_index_eq)
    with Suc show ?thesis by simp
  qed
qed

lemma fold_upd_dom:
  "n \<le> length ws \<Longrightarrow> w \<in> set (take n ws) \<Longrightarrow>
     fold (\<lambda>i d. d(ws ! i \<mapsto> int i)) [0..<n] Map.empty w \<noteq> None"
proof (induction n)
  case 0
  then show ?case by simp
next
  case (Suc n)
  then show ?case by (auto simp: take_Suc_conv_app_nth)
qed

lemma GetWordIdx_ValueError_iff:
  "GetWordIdx (MnemonicWordsList_init ws) w = Inl ValueError \<longleftrightarrow> w \<notin> set ws"
proof (cases "w \<in> set ws")
  case True
  with fold_upd_dom [of "length ws" ws w] show ?thesis
    by (auto simp: GetWordIdx_def MnemonicWordsList_init_def split: option.splits)
next
  case False
  with fold_upd_None [of "length ws" ws w] show ?thesis
    by (simp add: GetWordIdx_def MnemonicWordsList_init_def)
qed

lemma GetWordIdx_nth:
  "distinct ws \<Longrightarrow> i < length ws \<Longrightarrow>
     GetWordIdx (MnemonicWordsList_init ws) (ws ! i) = Inr (int i)"
  using fold_upd_Some [of "length ws" ws i]
  by (simp add: GetWordIdx_def MnemonicWordsList_init_def)

text \<open>
  C9. For a words list constructed from pairwise distinct words, \<open>GetWordIdx\<close> and
  \<open>GetWordAtIdx\<close> are inverse to each other: for every index \<open>i\<close> from 0 up to the
  length of the list, \<open>GetWordAtIdx\<close> returns a word whose \<open>GetWordIdx\<close> is \<open>i\<close>; for
  every word of the list, \<open>GetWordIdx\<close> returns an index at which \<open>GetWordAtIdx\<close> returns
  the word; and \<open>GetWordIdx\<close> raises ValueError exactly for the words that do not occur in
  the list.
\<close>

theorem words_list_inverse:
  assumes "distinct ws"
  shows "(\<forall>i. 0 \<le> i \<and> i < int (length ws) \<longrightarrow>
            (\<exists>w. GetWordAtIdx (MnemonicWordsList_init ws) i = Inr w \<and>
                 GetWordIdx (MnemonicWordsList_init ws) w = Inr i)) \<and>
         (\<forall>w \<in> set ws.
            \<exists>i. GetWordIdx (MnemonicWordsList_init ws) w = Inr i \<and>
                GetWordAtIdx (MnemonicWordsList_init ws) i = Inr w) \<and>
         (\<forall>w. GetWordIdx (MnemonicWordsList_init ws) w = Inl ValueError \<longleftrightarrow> w \<notin> set ws)"
proof (intro conjI allI ballI impI)
  fix i :: int
  assume i: "0 \<le> i \<and> i < int (length ws)"
  then have at: "GetWordAtIdx (MnemonicWordsList_init ws) i = Inr (ws ! nat i)"
    by (simp add: GetWordAtIdx_def MnemonicWordsList_init_def Let_def)
  from i assms have "GetWordIdx (MnemonicWordsList_init ws) (ws ! nat i) = Inr (int (nat i))"
    by (intro GetWordIdx_nth) auto
  with i at show "\<exists>w. GetWordAtIdx (MnemonicWordsList_init ws) i = Inr w \<and>
                 GetWordIdx (MnemonicWordsList_init ws) w = Inr i"
    by simp
next
  fix w
  assume "w \<in> set ws"
  then obtain j where j: "j < length ws" "ws ! j = w"
    by (auto simp: in_set_conv_nth)
  with assms have idx: "GetWordIdx (MnemonicWordsList_init ws) w = Inr (int j)"
    using GetWordIdx_nth [of ws j] by simp
  from j have "GetWordAtIdx (MnemonicWordsList_init ws) (int j) = Inr w"
    by (simp add: GetWordAtIdx_def MnemonicWordsList_init_def Let_def)
  with idx show "\<exists>i. GetWordIdx (MnemonicWordsList_init ws) w = Inr i \<and>
                GetWordAtIdx (MnemonicWordsList_init ws) i = Inr w"
    by blast
next
  fix w
  show "GetWordIdx (MnemonicWordsList_init ws) w = Inl ValueError \<longleftrightarrow> w \<notin> set ws"
    by (rule GetWordIdx_ValueError_iff)
qed

lemmas mnemonic_eval =
  GetWordIdx_def GetWordAtIdx_def MnemonicWordsList_init_def upt_rec

theorem words_list_inverse_witness:
  "distinct [''abandon'', ''ability'', ''able''] \<and>
   GetWordAtIdx (MnemonicWordsList_init [''abandon'', ''ability'', ''able'']) 1 =
     Inr ''ability'' \<and>
   GetWordIdx (MnemonicWordsList_init [''abandon'', ''ability'', ''able'']) ''ability'' =
     Inr 1 \<and>
   GetWordIdx (MnemonicWordsList_init [''abandon'', ''ability'', ''able'']) ''zoo'' =
     Inl ValueError"
proof -
  let ?ws = "[''abandon'', ''ability'', ''able'']"
  have d: "distinct ?ws" by simp
  have missing: "GetWordIdx (MnemonicWordsList_init ?ws) ''zoo'' = Inl ValueError"
    using words_list_inverse [OF d, THEN conjunct2, THEN conjunct2, rule_format, of "''zoo''"]
    by simp
  have at: "GetWordAtIdx (MnemonicWordsList_init ?ws) 1 = Inr ''ability''"
    by (simp add: mnemonic_eval)
  have idx: "GetWordIdx (MnemonicWordsList_init ?ws) ''ability'' = Inr 1"
    by (simp add: mnemonic_eval)
  from d missing at idx show ?thesis by simp
qed

section \<open>The language of a mnemonic\<close>

lemma GetWordIdx_Inl: "GetWordIdx wl w = Inl e \<Longrightarrow> e = ValueError"
  by (auto simp: GetWordIdx_def split: option.splits)

lemma GetWordIdx_Inr_iff:
  "(\<exists>i. GetWordIdx (MnemonicWordsList_init ws) w = Inr i) \<longleftrightarrow> w \<in> set ws"
  using GetWordIdx_ValueError_iff [of ws w] GetWordIdx_Inl [of "MnemonicWordsList_init ws" w]
  by (cases "GetWordIdx (MnemonicWordsList_init ws) w") auto

lemma check_words_init:
  "check_words (MnemonicWordsList_init ws) mn =
     (if list_all (\<lambda>w. w \<in> set ws) mn then Inr () else Inl ValueError)"
proof (induction mn)
  case Nil
  then show ?case by simp
next
  case (Cons w mn)
  show ?case
  proof (cases "w \<in> set ws")
    case True
    then obtain i where "GetWordIdx (MnemonicWordsList_init ws) w = Inr i"
      using GetWordIdx_Inr_iff [of ws w] by blast
    with True Cons show ?thesis by simp
  next
    case False
    then have "GetWordIdx (MnemonicWordsList_init ws) w = Inl ValueError"
      by (simp add: GetWordIdx_ValueError_iff)
    with False show ?thesis by simp
  qed
qed

lemma FindLanguageGeneric_eq:
  "FindLanguageGeneric mnemonic langs (getter_of load) = first_language mnemonic langs load"
proof (induction langs)
  case Nil
  show ?case by (simp add: first_language_def)
next
  case (Cons lang langs)
  show ?case
  proof (cases "load lang")
    case (Inl e)
    then show ?thesis
      using Cons
      by (cases e)
        (simp_all add: getter_of_def first_language_def lang_matches_def lang_raises_other_def)
  next
    case (Inr ws)
    then show ?thesis
      using Cons
      by (simp add: getter_of_def first_language_def lang_matches_def lang_raises_other_def
          check_words_init)
  qed
qed

text \<open>
  C8 as stated fails where the words list of a language cannot be loaded for a reason that
  is not a \<open>ValueError\<close>: the language is not skipped. Here no file exists for the first
  language of the enumeration, the second language contains the word of the mnemonic, and
  the call raises the \<open>OSError\<close> of the first language instead of returning the second.
\<close>

theorem first_match_counterexample:
  "FindLanguageGeneric [''fatigue''] [''spanish'', ''english''] (getter_of example_load) =
     Inl OSError \<and>
   lang_matches [''fatigue''] example_load ''english'' \<and>
   \<not> lang_matches [''fatigue''] example_load ''spanish''"
  by (simp add: getter_of_def example_load_def lang_matches_def)

text \<open>
  C8, amended. For every mnemonic, every enumeration of languages and every getter,
  \<open>_FindLanguageGeneric\<close> goes through the languages in order of enumeration and stops at
  the first language whose words list contains every word of the mnemonic, returning that
  words list and language, or whose \<open>GetByLanguage\<close> raises an exception that is not a
  \<open>ValueError\<close>, raising that exception; a language whose \<open>GetByLanguage\<close> raises a
  \<open>ValueError\<close> or whose words list lacks a word is skipped, and \<open>ValueError\<close> is
  raised when no language is left. In particular, when no language of the enumeration
  raises anything but \<open>ValueError\<close>, the result is the first language whose words list
  contains every word, and \<open>ValueError\<close> if there is none.
\<close>

theorem FindLanguageGeneric_first_language:
  "FindLanguageGeneric mnemonic langs (getter_of load) = first_language mnemonic langs load \<and>
   ((\<forall>l \<in> set langs. \<not> lang_raises_other load l) \<longrightarrow>
      FindLanguageGeneric mnemonic langs (getter_of load) =
        (case find (lang_matches mnemonic load) langs of
           None \<Rightarrow> Inl ValueError
         | Some l \<Rightarrow>
             (case load l of Inl e \<Rightarrow> Inl e | Inr ws \<Rightarrow> Inr (MnemonicWordsList_init ws, l))))"
proof (intro conjI impI)
  show eq: "FindLanguageGeneric mnemonic langs (getter_of load) =
      first_language mnemonic langs load"
    by (rule FindLanguageGeneric_eq)
  assume "\<forall>l \<in> set langs. \<not> lang_raises_other load l"
  then have "find (\<lambda>l. lang_matches mnemonic load l \<or> lang_raises_other load l) langs =
      find (lang_matches mnemonic load) langs"
    by (intro find_cong) auto
  with eq show "FindLanguageGeneric mnemonic langs (getter_of load) =
        (case find (lang_matches mnemonic load) langs of
           None \<Rightarrow> Inl ValueError
         | Some l \<Rightarrow>
             (case load l of Inl e \<Rightarrow> Inl e | Inr ws \<Rightarrow> Inr (MnemonicWordsList_init ws, l)))"
    by (simp add: first_language_def)
qed

theorem FindLanguageGeneric_first_language_witness:
  "FindLanguageGeneric [''fatigue'', ''zoologie''] [''italian'', ''english'', ''french'']
      (getter_of example_load) =
     Inr (MnemonicWordsList_init [''abaisser'', ''fatigue'', ''zoologie''], ''french'') \<and>
   FindLanguageGeneric [''fatigue'', ''abandon'', ''abaisser''] [''italian'', ''english'', ''french'']
      (getter_of example_load) = Inl ValueError \<and>
   FindLanguageGeneric [''fatigue''] [''italian'', ''english'', ''french'']
      (getter_of example_load) =
     Inr (MnemonicWordsList_init [''abandon'', ''fatigue'', ''zoo''], ''english'')"
  using
    FindLanguageGeneric_first_language [of "[''fatigue'', ''zoologie'']"
      "[''italian'', ''english'', ''french'']" example_load]
    FindLanguageGeneric_first_language [of "[''fatigue'', ''abandon'', ''abaisser'']"
      "[''italian'', ''english'', ''french'']" example_load]
    FindLanguageGeneric_first_language [of "[''fatigue'']"
      "[''italian'', ''english'', ''french'']" example_load]
  by (simp add: first_language_def lang_matches_def lang_raises_other_def example_load_def)

section \<open>The range guard of the unsigned integer encoder\<close>

lemma length_le_bytes: "length (le_bytes n v) = n"
  by (induction n arbitrary: v) auto

lemma le_value_le_bytes: "0 \<le> v \<Longrightarrow> v < 256 ^ n \<Longrightarrow> le_value (le_bytes n v) = v"
proof (induction n arbitrary: v)
  case 0
  then show ?case by simp
next
  case (Suc n)
  have "0 \<le> v div 256" "v div 256 < 256 ^ n"
    using Suc.prems by auto
  then have "le_value (le_bytes n (v div 256)) = v div 256"
    by (rule Suc.IH)
  moreover have "uint (word_of_int (v mod 256) :: 8 word) = v mod 256"
    by (simp add: uint_word_of_int take_bit_eq_mod)
  ultimately show ?case by simp
qed

lemma le_value_unique:
  "length bs = length cs \<Longrightarrow> le_value bs = le_value cs \<Longrightarrow> bs = cs"
proof (induction bs cs rule: list_induct2)
  case Nil
  then show ?case by simp
next
  case (Cons b bs c cs)
  have b: "0 \<le> uint b" "uint b < 256" and c: "0 \<le> uint c" "uint c < 256"
    using uint_lt2p [of b] uint_lt2p [of c] by simp_all
  from Cons.prems have eq: "uint b + 256 * le_value bs = uint c + 256 * le_value cs"
    by simp
  then have "(uint b + 256 * le_value bs) mod 256 = (uint c + 256 * le_value cs) mod 256"
    by simp
  with b c have bc: "uint b = uint c" by simp
  with eq have "le_value bs = le_value cs" by simp
  with Cons.IH bc show ?case by (simp add: word_uint_eq_iff)
qed

lemma max_val_eq: "push_bit (nat (n * 8)) (2::int) - 1 = 2 ^ (8 * nat n + 1) - 1"
  by (simp add: push_bit_eq_mult nat_mult_distrib mult.commute)

text \<open>
  C10. For an encoder constructed with a number of bytes \<open>n\<close> of at least 1, the maximum
  value kept by the constructor is \<open>2 ^ (8 * n + 1) - 1\<close>, and \<open>Encode\<close> raises ValueError
  exactly for the values below 0 or above that maximum, which is twice as large as the
  largest value of \<open>n\<close> bytes allows. For every value from 0 to \<open>2 ^ (8 * n) - 1\<close>,
  \<open>Encode\<close> returns the one list of \<open>n\<close> bytes whose little-endian value is the value.
\<close>

theorem uint_encoder_range:
  assumes "1 \<le> n"
  shows "\<exists>enc. SubstrateScaleUIntEncoder_init n = Inr enc \<and>
           m_max_val enc = 2 ^ (8 * nat n + 1) - 1 \<and>
           (\<forall>v. Encode enc v = Inl ValueError \<longleftrightarrow> v < 0 \<or> v > 2 ^ (8 * nat n + 1) - 1) \<and>
           (\<forall>v. 0 \<le> v \<and> v \<le> 2 ^ (8 * nat n) - 1 \<longrightarrow>
              (\<exists>bs. Encode enc v = Inr bs \<and> length bs = nat n \<and> le_value bs = v \<and>
                 (\<forall>cs. length cs = nat n \<and> le_value cs = v \<longrightarrow> cs = bs)))"
proof -
  let ?enc = "\<lparr>m_bytes_num = n, m_max_val = push_bit (nat (n * 8)) 2 - 1\<rparr>"
  have init: "SubstrateScaleUIntEncoder_init n = Inr ?enc"
    using assms by (simp add: SubstrateScaleUIntEncoder_init_def)
  have mx: "m_max_val ?enc = 2 ^ (8 * nat n + 1) - 1"
    by (simp add: max_val_eq)
  have guard: "Encode ?enc v = Inl ValueError \<longleftrightarrow> v < 0 \<or> v > 2 ^ (8 * nat n + 1) - 1" for v
    unfolding Encode_def mx using assms by (simp add: ToBytes_little_def)
  have enc: "\<exists>bs. Encode ?enc v = Inr bs \<and> length bs = nat n \<and> le_value bs = v \<and>
                 (\<forall>cs. length cs = nat n \<and> le_value cs = v \<longrightarrow> cs = bs)"
    if v: "0 \<le> v \<and> v \<le> 2 ^ (8 * nat n) - 1" for v
  proof -
    have p: "(256::int) ^ nat n = 2 ^ (8 * nat n)"
      by (simp add: power_mult)
    from v have lt: "v < 256 ^ nat n" by (simp add: p)
    have "(2::int) ^ (8 * nat n) \<le> 2 ^ (8 * nat n + 1)" by simp
    with v have "\<not> v > 2 ^ (8 * nat n + 1) - 1" by linarith
    with v lt have e: "Encode ?enc v = Inr (le_bytes (nat n) v)"
      unfolding Encode_def mx using assms by (simp add: ToBytes_little_def)
    have "le_value (le_bytes (nat n) v) = v"
      using v lt by (intro le_value_le_bytes) auto
    with e show ?thesis
      by (auto simp: length_le_bytes intro: le_value_unique)
  qed
  from init mx guard enc show ?thesis by blast
qed

theorem uint_encoder_range_witness:
  "SubstrateScaleUIntEncoder_init 2 = Inr \<lparr>m_bytes_num = 2, m_max_val = 131071\<rparr> \<and>
   Encode \<lparr>m_bytes_num = 2, m_max_val = 131071\<rparr> 258 = Inr [2, 1] \<and>
   Encode \<lparr>m_bytes_num = 2, m_max_val = 131071\<rparr> 65535 = Inr [255, 255] \<and>
   Encode \<lparr>m_bytes_num = 2, m_max_val = 131071\<rparr> 131072 = Inl ValueError \<and>
   Encode \<lparr>m_bytes_num = 2, m_max_val = 131071\<rparr> (- 1) = Inl ValueError"
proof -
  let ?enc = "\<lparr>m_bytes_num = 2, m_max_val = 131071\<rparr>"
  have init: "SubstrateScaleUIntEncoder_init 2 = Inr ?enc"
    by (simp add: SubstrateScaleUIntEncoder_init_def)
  have one: "(1::int) \<le> 2" by simp
  from uint_encoder_range [OF one] init
  have guard: "\<forall>v. Encode ?enc v = Inl ValueError \<longleftrightarrow> v < 0 \<or> v > 2 ^ (8 * nat 2 + 1) - 1"
    by auto
  have big: "Encode ?enc 131072 = Inl ValueError"
    using guard [rule_format, of 131072] by simp
  have neg: "Encode ?enc (- 1) = Inl ValueError"
    using guard [rule_format, of "- 1"] by simp
  have a: "Encode ?enc 258 = Inr [2, 1]"
    by (simp add: Encode_def ToBytes_little_def numeral_2_eq_2)
  have b: "Encode ?enc 65535 = Inr [255, 255]"
    by (simp add: Encode_def ToBytes_little_def numeral_2_eq_2)
  from init a b big neg show ?thesis by simp
qed

end
